theory Spec2Isabelle
  imports Main "HOL-Library.Word"
begin

section \<open>Bytes, text and exceptions\<close>

text \<open>
  The scripts \<^verbatim>\<open>generate_sparkle_keys.py\<close> and \<^verbatim>\<open>sign_dmg.py\<close> move byte strings
  between files and the \<^verbatim>\<open>cryptography\<close> package. Bytes are 8-bit words, text is
  \<open>string\<close>, and every exception the scripts can meet is a value of \<open>py_exception\<close>
  (all of them are subclasses of Python's \<^verbatim>\<open>Exception\<close>).
\<close>

type_synonym byte = "8 word"
type_synonym bytes = "byte list"

datatype py_exception =
    OSError | ValueError | TypeError | AttributeError
  | UnsupportedAlgorithm | UnicodeDecodeError | ImportError

definition byte_of_char :: "char \<Rightarrow> byte" where
  "byte_of_char c = of_nat (of_char c)"

definition char_of_byte :: "byte \<Rightarrow> char" where
  "char_of_byte b = char_of (unat b)"

definition encode_text :: "string \<Rightarrow> bytes" where
  \<comment> \<open>what a text-mode \<^verbatim>\<open>f.write(s)\<close> puts on disk for a string of single-byte characters\<close>
  "encode_text s = map byte_of_char s"

definition decode_ascii :: "bytes \<Rightarrow> py_exception + string" where
  \<comment> \<open>\<^verbatim>\<open>bs.decode('ascii')\<close>: raises on any byte above 127\<close>
  "decode_ascii bs =
     (if list_all (\<lambda>b. unat b < 128) bs then Inr (map char_of_byte bs)
      else Inl UnicodeDecodeError)"

section \<open>Base64 (RFC 4648, standard alphabet, with padding)\<close>

definition b64_alphabet :: string where
  "b64_alphabet = ''ABCDEFGHIJKLMNOPQRSTUVWXYZabcdefghijklmnopqrstuvwxyz0123456789+/''"

definition b64_char :: "nat \<Rightarrow> char" where
  "b64_char i = b64_alphabet ! i"

fun index_of :: "'a \<Rightarrow> 'a list \<Rightarrow> nat option" where
  "index_of x [] = None"
| "index_of x (y # ys) = (if x = y then Some 0 else map_option Suc (index_of x ys))"

definition b64_index :: "char \<Rightarrow> nat option" where
  "b64_index c = index_of c b64_alphabet"

text \<open>
  \<^verbatim>\<open>base64.b64encode(bs).decode('ascii')\<close>: three bytes become four characters; a last
  group of one or two bytes is padded with \<open>=\<close>. The output is one run of characters,
  without line breaks.
\<close>

fun b64encode :: "bytes \<Rightarrow> string" where
  "b64encode [] = []"
| "b64encode [a] =
     (let n = unat a * 65536
      in [b64_char (n div 262144), b64_char (n div 4096 mod 64), CHR ''='', CHR ''=''])"
| "b64encode [a, b] =
     (let n = unat a * 65536 + unat b * 256
      in [b64_char (n div 262144), b64_char (n div 4096 mod 64),
          b64_char (n div 64 mod 64), CHR ''=''])"
| "b64encode (a # b # c # rest) =
     (let n = unat a * 65536 + unat b * 256 + unat c
      in [b64_char (n div 262144), b64_char (n div 4096 mod 64),
          b64_char (n div 64 mod 64), b64_char (n mod 64)] @ b64encode rest)"

text \<open>The decoder a consumer of the key and signature text applies; \<open>None\<close> on malformed text.\<close>

fun b64decode :: "string \<Rightarrow> bytes option" where
  "b64decode [] = Some []"
| "b64decode (c0 # c1 # c2 # c3 # rest) =
     (if c2 = CHR ''='' \<and> c3 = CHR ''='' \<and> rest = [] then
        (case (b64_index c0, b64_index c1) of
           (Some s0, Some s1) \<Rightarrow>
             (let n = s0 * 262144 + s1 * 4096 in Some [of_nat (n div 65536)])
         | _ \<Rightarrow> None)
      else if c3 = CHR ''='' \<and> rest = [] then
        (case (b64_index c0, b64_index c1, b64_index c2) of
           (Some s0, Some s1, Some s2) \<Rightarrow>
             (let n = s0 * 262144 + s1 * 4096 + s2 * 64
              in Some [of_nat (n div 65536), of_nat (n div 256 mod 256)])
         | _ \<Rightarrow> None)
      else
        (case (b64_index c0, b64_index c1, b64_index c2, b64_index c3) of
           (Some s0, Some s1, Some s2, Some s3) \<Rightarrow>
             (let n = s0 * 262144 + s1 * 4096 + s2 * 64 + s3
              in map_option (\<lambda>bs. of_nat (n div 65536) # of_nat (n div 256 mod 256)
                                    # of_nat (n mod 256) # bs) (b64decode rest))
         | _ \<Rightarrow> None))"
| "b64decode _ = None"

section \<open>The file system\<close>

text \<open>
  The only state the scripts share is the disk: a map from paths to contents, with the
  permission to open a path for reading and for writing (creating or truncating) kept
  apart from the contents. Paths are those of a file system, without a NUL character;
  on a string with one, \<^verbatim>\<open>open\<close> raises \<^verbatim>\<open>ValueError\<close> before it looks at the
  disk, and a statement about a failing \<^verbatim>\<open>open\<close> of any path carries that condition.
\<close>

record file_system =
  files :: "string \<Rightarrow> bytes option"
  readable :: "string \<Rightarrow> bool"
  writable :: "string \<Rightarrow> bool"

definition read_file :: "file_system \<Rightarrow> string \<Rightarrow> (py_exception + bytes) \<times> file_system" where
  \<comment> \<open>\<^verbatim>\<open>with open(path, 'rb') as f: f.read()\<close>\<close>
  "read_file fs path =
     (case files fs path of
        None \<Rightarrow> (Inl OSError, fs)
      | Some content \<Rightarrow> if readable fs path then (Inr content, fs) else (Inl OSError, fs))"

definition write_file ::
  "file_system \<Rightarrow> string \<Rightarrow> bytes \<Rightarrow> (py_exception + unit) \<times> file_system" where
  \<comment> \<open>\<^verbatim>\<open>with open(path, 'wb') as f: f.write(content)\<close>: creates the file or replaces its content\<close>
  "write_file fs path content =
     (if writable fs path then (Inr (), fs\<lparr>files := (files fs)(path \<mapsto> content)\<rparr>)
      else (Inl OSError, fs))"

section \<open>The cryptography package\<close>

text \<open>
  The package is not part of the repository; the scripts are modelled over any
  implementation of the entry points they and their consumer call. \<open>load_pem_private_key\<close> is the
  loader called with \<^verbatim>\<open>password=None\<close>; it returns a key object of whatever type the
  container holds. An Ed25519 or Ed448 private key is represented by its private bytes.
\<close>

datatype private_key =
    Ed25519PrivateKey bytes
  | Ed448PrivateKey bytes
  | RSAPrivateKey
  | DSAPrivateKey
  | EllipticCurvePrivateKey
  | DHPrivateKey
  | X25519PrivateKey
  | X448PrivateKey

record crypto_lib =
  load_pem_private_key :: "bytes \<Rightarrow> py_exception + private_key"
  private_bytes_pem :: "bytes \<Rightarrow> bytes"
  public_bytes_raw :: "bytes \<Rightarrow> bytes"
  ed25519_sign :: "bytes \<Rightarrow> bytes \<Rightarrow> bytes"
  ed448_sign :: "bytes \<Rightarrow> bytes \<Rightarrow> bytes"
  ed25519_verify :: "bytes \<Rightarrow> bytes \<Rightarrow> bytes \<Rightarrow> bool"

text \<open>
  \<open>private_bytes_pem k\<close> is \<^verbatim>\<open>private_bytes(PEM, PKCS8, NoEncryption())\<close> of the Ed25519
  key \<open>k\<close>; \<open>public_bytes_raw k\<close> is \<^verbatim>\<open>public_key().public_bytes(Raw, Raw)\<close> of the same
  key; \<open>ed25519_verify lib pk sig msg\<close> is the verifier of the consumer.

  \<^verbatim>\<open>private_key.sign(file_data)\<close> is a method call on whatever object the loader
  returned. The two Edwards-curve key types take the data alone; RSA, DSA and
  elliptic-curve keys require further arguments (a \<^verbatim>\<open>TypeError\<close>); the key-exchange
  types have no \<^verbatim>\<open>sign\<close> method (an \<^verbatim>\<open>AttributeError\<close>).
\<close>

fun key_sign :: "crypto_lib \<Rightarrow> private_key \<Rightarrow> bytes \<Rightarrow> py_exception + bytes" where
  "key_sign lib (Ed25519PrivateKey k) file_data = Inr (ed25519_sign lib k file_data)"
| "key_sign lib (Ed448PrivateKey k) file_data = Inr (ed448_sign lib k file_data)"
| "key_sign lib RSAPrivateKey file_data = Inl TypeError"
| "key_sign lib DSAPrivateKey file_data = Inl TypeError"
| "key_sign lib EllipticCurvePrivateKey file_data = Inl TypeError"
| "key_sign lib DHPrivateKey file_data = Inl AttributeError"
| "key_sign lib X25519PrivateKey file_data = Inl AttributeError"
| "key_sign lib X448PrivateKey file_data = Inl AttributeError"

definition takes_data_alone :: "private_key \<Rightarrow> bool" where
  \<comment> \<open>the key types whose \<^verbatim>\<open>sign\<close> method accepts the call \<^verbatim>\<open>sign(file_data)\<close>\<close>
  "takes_data_alone pk =
     (case pk of Ed25519PrivateKey k \<Rightarrow> True | Ed448PrivateKey k \<Rightarrow> True | _ \<Rightarrow> False)"

text \<open>
  The specification names two kinds of failure of the signer. Its \<^verbatim>\<open>IOError\<close> is Python's
  \<^verbatim>\<open>OSError\<close>. Its \<^verbatim>\<open>KeyFormatError\<close> is no class of the code: it stands for the
  exceptions with which the package and Python refuse a key, the loader's
  \<^verbatim>\<open>ValueError\<close>, \<^verbatim>\<open>TypeError\<close> and \<^verbatim>\<open>UnsupportedAlgorithm\<close>, and the
  \<^verbatim>\<open>TypeError\<close> or \<^verbatim>\<open>AttributeError\<close> of a \<^verbatim>\<open>sign\<close> call the key object
  cannot serve.
\<close>

definition is_KeyFormatError :: "py_exception \<Rightarrow> bool" where
  "is_KeyFormatError e =
     (e = ValueError \<or> e = TypeError \<or> e = AttributeError \<or> e = UnsupportedAlgorithm)"

definition fails_with_KeyFormatError :: "py_exception + 'a \<Rightarrow> bool" where
  "fails_with_KeyFormatError r = (case r of Inl e \<Rightarrow> is_KeyFormatError e | Inr x \<Rightarrow> False)"

section \<open>sign\_dmg.py\<close>

definition load_private_key ::
  "crypto_lib \<Rightarrow> file_system \<Rightarrow> string \<Rightarrow> (py_exception + private_key) \<times> file_system" where
  \<comment> \<open>lines 9-10: open the key file and hand its bytes to the loader\<close>
  "load_private_key lib fs private_key_path =
     (case read_file fs private_key_path of
        (Inl e, fs1) \<Rightarrow> (Inl e, fs1)
      | (Inr key_bytes, fs1) \<Rightarrow> (load_pem_private_key lib key_bytes, fs1))"

definition sign_file_with_ed25519 ::
  "crypto_lib \<Rightarrow> file_system \<Rightarrow> string \<Rightarrow> string
     \<Rightarrow> (py_exception + string \<times> int) \<times> file_system" where
  "sign_file_with_ed25519 lib fs file_path private_key_path =
     (case load_private_key lib fs private_key_path of
        (Inl e, fs1) \<Rightarrow> (Inl e, fs1)
      | (Inr private_key, fs1) \<Rightarrow>
          (case read_file fs1 file_path of
             (Inl e, fs2) \<Rightarrow> (Inl e, fs2)
           | (Inr file_data, fs2) \<Rightarrow>
               (case key_sign lib private_key file_data of
                  Inl e \<Rightarrow> (Inl e, fs2)
                | Inr signature \<Rightarrow>
                    (Inr (b64encode signature, int (length file_data)), fs2))))"

text \<open>What a run of a script leaves behind: the lines printed, the exit status, the disk.\<close>

datatype out_line =
    Usage
  | Fichier string
  | Taille int
  | SignatureEdDSA string
  | Blank
  | AppcastHeader
  | LengthAttr int
  | EdSignatureAttr string
  | Erreur py_exception
  | GenerationBanner
  | KeysGenerated
  | PrivateKeySaved
  | PublicKeySaved
  | XcodeHeader
  | InfoPlistKey string
  | SecurityHeader
  | SecurityNote nat
  | MissingModule
  | InstallHint
  | ErreurGeneration py_exception

record process =
  stdout :: "out_line list"
  exit_status :: int
  disk :: file_system

definition sign_dmg_main :: "crypto_lib \<Rightarrow> file_system \<Rightarrow> string list \<Rightarrow> process" where
  \<comment> \<open>\<open>argv\<close> is \<^verbatim>\<open>sys.argv\<close>, the script name included; falling off the end is status 0\<close>
  "sign_dmg_main lib fs argv =
     (case argv of
        [prog, dmg_file, key_file] \<Rightarrow>
          (case sign_file_with_ed25519 lib fs dmg_file key_file of
             (Inr (signature, size_bytes), fs') \<Rightarrow>
               \<lparr>stdout = [Fichier dmg_file, Taille size_bytes, SignatureEdDSA signature, Blank,
                          AppcastHeader, LengthAttr size_bytes, EdSignatureAttr signature],
                exit_status = 0, disk = fs'\<rparr>
           | (Inl e, fs') \<Rightarrow> \<lparr>stdout = [Erreur e], exit_status = 0, disk = fs'\<rparr>)
      | _ \<Rightarrow> \<lparr>stdout = [Usage], exit_status = 1, disk = fs\<rparr>)"

definition is_signature_line :: "out_line \<Rightarrow> bool" where
  "is_signature_line l =
     (case l of SignatureEdDSA s \<Rightarrow> True | EdSignatureAttr s \<Rightarrow> True | _ \<Rightarrow> False)"

section \<open>generate\_sparkle\_keys.py\<close>

definition private_key_file :: string where
  "private_key_file = ''sparkle_private_key.pem''"

definition public_key_file :: string where
  "public_key_file = ''sparkle_public_key.txt''"

definition success_report :: "string \<Rightarrow> out_line list" where
  \<comment> \<open>lines 45-56\<close>
  "success_report public_base64 =
     [KeysGenerated, PrivateKeySaved, PublicKeySaved, Blank, XcodeHeader,
      InfoPlistKey public_base64, Blank, SecurityHeader,
      SecurityNote 1, SecurityNote 2, SecurityNote 3, SecurityNote 4]"

text \<open>
  \<open>generated\<close> is the outcome of \<^verbatim>\<open>Ed25519PrivateKey.generate()\<close>: the fresh private key
  drawn from the system's randomness, or the exception of a backend without Ed25519.
  The result is the returned pair, the disk and the lines printed so far.
\<close>

definition generate_sparkle_keys ::
  "crypto_lib \<Rightarrow> py_exception + bytes \<Rightarrow> file_system
     \<Rightarrow> (py_exception + string \<times> string) \<times> file_system \<times> out_line list" where
  "generate_sparkle_keys lib generated fs =
     (case generated of
        Inl e \<Rightarrow> (Inl e, fs, [GenerationBanner])
      | Inr private_key \<Rightarrow>
          (let private_pem = private_bytes_pem lib private_key;
               public_raw = public_bytes_raw lib private_key;
               public_base64 = b64encode public_raw
           in case write_file fs private_key_file private_pem of
                (Inl e, fs1) \<Rightarrow> (Inl e, fs1, [GenerationBanner])
              | (Inr u, fs1) \<Rightarrow>
                  (case write_file fs1 public_key_file (encode_text public_base64) of
                     (Inl e, fs2) \<Rightarrow> (Inl e, fs2, [GenerationBanner])
                   | (Inr u, fs2) \<Rightarrow>
                       (case decode_ascii private_pem of
                          Inl e \<Rightarrow>
                            (Inl e, fs2, GenerationBanner # success_report public_base64)
                        | Inr private_text \<Rightarrow>
                            (Inr (public_base64, private_text), fs2,
                             GenerationBanner # success_report public_base64)))))"

definition generate_sparkle_keys_main ::
  "crypto_lib \<Rightarrow> py_exception + bytes \<Rightarrow> file_system \<Rightarrow> process" where
  "generate_sparkle_keys_main lib generated fs =
     (case generate_sparkle_keys lib generated fs of
        (Inr (public_key, private_key), fs', out) \<Rightarrow>
          \<lparr>stdout = out, exit_status = 0, disk = fs'\<rparr>
      | (Inl e, fs', out) \<Rightarrow>
          (if e = ImportError
           then \<lparr>stdout = out @ [MissingModule, InstallHint], exit_status = 1, disk = fs'\<rparr>
           else \<lparr>stdout = out @ [ErreurGeneration e], exit_status = 1, disk = fs'\<rparr>))"

section \<open>A small implementation of the package, for concrete runs\<close>

text \<open>
  A stand-in for the package on which the model can be run: a key file is a type tag
  (1 for Ed25519, 2 for Ed448, 3 for RSA) followed by the key bytes, anything else does
  not parse; a signature is the key followed by the message, cut or padded to 64 bytes,
  and the public key is the private one. It has the shape of the package, not its
  security.
\<close>

definition demo_sign :: "bytes \<Rightarrow> bytes \<Rightarrow> bytes" where
  "demo_sign k msg = take 64 (k @ msg @ replicate 64 0)"

definition demo_load :: "bytes \<Rightarrow> py_exception + private_key" where
  "demo_load bs =
     (case bs of
        [] \<Rightarrow> Inl ValueError
      | tag # rest \<Rightarrow>
          if tag = 1 then Inr (Ed25519PrivateKey rest)
          else if tag = 2 then Inr (Ed448PrivateKey rest)
          else if tag = 3 then Inr RSAPrivateKey
          else Inl ValueError)"

definition demo_lib :: crypto_lib where
  "demo_lib =
     \<lparr>load_pem_private_key = demo_load,
      private_bytes_pem = (\<lambda>k. 1 # k),
      public_bytes_raw = (\<lambda>k. k),
      ed25519_sign = demo_sign,
      ed448_sign = demo_sign,
      ed25519_verify = (\<lambda>pk sig msg. sig = demo_sign pk msg)\<rparr>"

definition hello :: bytes where
  "hello = [104, 101, 108, 108, 111]"

definition demo_key :: bytes where
  "demo_key = [7, 8, 9]"

definition demo_key32 :: bytes where
  "demo_key32 = replicate 32 7"

definition demo_disk :: file_system where
  "demo_disk =
     \<lparr>files = [''app.dmg'' \<mapsto> hello, ''empty.dmg'' \<mapsto> [], ''key.pem'' \<mapsto> 1 # demo_key,
               ''ed448.pem'' \<mapsto> 2 # demo_key, ''rsa.pem'' \<mapsto> [3],
               ''broken.pem'' \<mapsto> [45, 45]],
      readable = (\<lambda>p. True),
      writable = (\<lambda>p. True)\<rparr>"

definition read_only_public :: file_system where
  \<comment> \<open>a disk on which only the public-key file cannot be opened for writing\<close>
  "read_only_public =
     \<lparr>files = [private_key_file \<mapsto> [0]],
      readable = (\<lambda>p. True),
      writable = (\<lambda>p. p \<noteq> public_key_file)\<rparr>"

text \<open>
  The check of the update client, as the specification describes it: read the published
  public-key file as text, decode it and the signature from base64, and run the
  Ed25519 verifier on the artifact bytes.
\<close>

definition consumer_accepts :: "crypto_lib \<Rightarrow> file_system \<Rightarrow> string \<Rightarrow> bytes \<Rightarrow> bool" where
  "consumer_accepts lib fs signature_b64 file_data =
     (case read_file fs public_key_file of
        (Inl e, fs1) \<Rightarrow> False
      | (Inr public_bytes, fs1) \<Rightarrow>
          (case decode_ascii public_bytes of
             Inl e \<Rightarrow> False
           | Inr public_base64 \<Rightarrow>
               (case (b64decode public_base64, b64decode signature_b64) of
                  (Some public_raw, Some signature) \<Rightarrow>
                    ed25519_verify lib public_raw signature file_data
                | _ \<Rightarrow> False)))"

section \<open>Base64 round trip\<close>

lemma index_of_nth: "distinct xs \<Longrightarrow> i < length xs \<Longrightarrow> index_of (xs ! i) xs = Some i"
proof (induction xs arbitrary: i)
  case Nil
  then show ?case by simp
next
  case (Cons y ys)
  show ?case
  proof (cases i)
    case 0
    then show ?thesis by simp
  next
    case (Suc j)
    with Cons.prems have "j < length ys" "distinct ys" "ys ! j \<noteq> y"
      by auto
    with Cons.IH Suc show ?thesis by simp
  qed
qed

lemma b64_alphabet_length: "length b64_alphabet = 64"
  by (simp add: b64_alphabet_def)

lemma b64_alphabet_distinct: "distinct b64_alphabet"
  by (simp add: b64_alphabet_def)

lemma b64_index_char: "i < 64 \<Longrightarrow> b64_index (b64_char i) = Some i"
  unfolding b64_index_def b64_char_def
  by (rule index_of_nth) (simp_all add: b64_alphabet_distinct b64_alphabet_length)

lemma b64_char_in_alphabet: "i < 64 \<Longrightarrow> b64_char i \<in> set b64_alphabet"
  unfolding b64_char_def by (rule nth_mem) (simp add: b64_alphabet_length)

lemma pad_not_in_alphabet: "CHR ''='' \<notin> set b64_alphabet"
  by (simp add: b64_alphabet_def)

lemma b64_char_not_pad: "i < 64 \<Longrightarrow> b64_char i \<noteq> CHR ''=''"
  using b64_char_in_alphabet pad_not_in_alphabet by metis

lemma horner3: "x * 65536 + y * 256 + z = (x * 256 + y) * 256 + (z::nat)"
  by simp

lemma horner4: "a * 262144 + b * 4096 + c * 64 + d = ((a * 64 + b) * 64 + c) * 64 + (d::nat)"
  by simp

lemma group_hi:
  "x < 256 \<Longrightarrow> y < 256 \<Longrightarrow> z < 256 \<Longrightarrow> (x * 65536 + y * 256 + z) div 65536 = (x::nat)"
  by simp

lemma group_mid:
  "x < 256 \<Longrightarrow> y < 256 \<Longrightarrow> z < 256 \<Longrightarrow> (x * 65536 + y * 256 + z) div 256 mod 256 = (y::nat)"
  by (simp only: horner3 div_mult_self3 div_less mod_mult_self3 mod_less add_0_right)

lemma group_lo:
  "x < 256 \<Longrightarrow> y < 256 \<Longrightarrow> z < 256 \<Longrightarrow> (x * 65536 + y * 256 + z) mod 256 = (z::nat)"
  by (simp only: horner3 mod_mult_self3 mod_less)

lemma group_top_sextet:
  "x < 256 \<Longrightarrow> y < 256 \<Longrightarrow> z < 256 \<Longrightarrow> (x * 65536 + y * 256 + z) div 262144 < (64::nat)"
  by simp

lemma sextets_recombine:
  "(n::nat) div 262144 * 262144 + (n div 4096 mod 64) * 4096 + (n div 64 mod 64) * 64
     + n mod 64 = n"
proof -
  define q where "q = n div 64"
  define r where "r = q div 64"
  have 2: "n div 4096 = r" by (simp add: q_def r_def div_mult2_eq)
  have 3: "n div 262144 = r div 64" by (simp add: q_def r_def div_mult2_eq)
  have "r div 64 * 262144 + (r mod 64) * 4096 + (q mod 64) * 64 + n mod 64
      = ((r div 64 * 64 + r mod 64) * 64 + q mod 64) * 64 + n mod 64" by (rule horner4)
  also have "\<dots> = (r * 64 + q mod 64) * 64 + n mod 64" by (simp only: div_mult_mod_eq)
  also have "\<dots> = q * 64 + n mod 64" by (simp only: r_def div_mult_mod_eq)
  also have "\<dots> = n" by (simp only: q_def div_mult_mod_eq)
  finally show ?thesis unfolding 2 3 q_def [symmetric] .
qed

lemma byte_bound: "unat (a::byte) < 256"
  using unsigned_less [of a] by simp

lemma byte_of_unat: "of_nat (unat (a::byte)) = a"
  by simp

lemma b64_block3:
  fixes a b c :: byte
  defines "n \<equiv> unat a * 65536 + unat b * 256 + unat c"
  shows "b64decode (b64_char (n div 262144) # b64_char (n div 4096 mod 64)
            # b64_char (n div 64 mod 64) # b64_char (n mod 64) # cs)
         = map_option (\<lambda>bs. a # b # c # bs) (b64decode cs)"
proof -
  have s0: "n div 262144 < 64"
    unfolding n_def by (rule group_top_sextet) (rule byte_bound)+
  have recomb: "n div 262144 * 262144 + (n div 4096 mod 64) * 4096 + (n div 64 mod 64) * 64
      + n mod 64 = n"
    by (rule sextets_recombine)
  have x: "n div 65536 = unat a" unfolding n_def by (rule group_hi) (rule byte_bound)+
  have y: "n div 256 mod 256 = unat b" unfolding n_def by (rule group_mid) (rule byte_bound)+
  have z: "n mod 256 = unat c" unfolding n_def by (rule group_lo) (rule byte_bound)+
  have np: "b64_char (n mod 64) \<noteq> CHR ''=''" "b64_char (n div 64 mod 64) \<noteq> CHR ''=''"
    by (rule b64_char_not_pad, simp)+
  have idx: "b64_index (b64_char (n div 262144)) = Some (n div 262144)"
    "b64_index (b64_char (n div 4096 mod 64)) = Some (n div 4096 mod 64)"
    "b64_index (b64_char (n div 64 mod 64)) = Some (n div 64 mod 64)"
    "b64_index (b64_char (n mod 64)) = Some (n mod 64)"
    using s0 by (simp_all add: b64_index_char)
  show ?thesis
    by (simp only: b64decode.simps np idx recomb x y z Let_def if_False simp_thms
          prod.case option.case byte_of_unat)
qed

lemma b64_block1:
  fixes a :: byte
  defines "n \<equiv> unat a * 65536"
  shows "b64decode [b64_char (n div 262144), b64_char (n div 4096 mod 64), CHR ''='', CHR ''='']
         = Some [a]"
proof -
  have n: "n = unat a * 65536 + 0 * 256 + 0" by (simp add: n_def)
  have s0: "n div 262144 < 64"
    unfolding n by (rule group_top_sextet) (rule byte_bound, simp_all)
  have lo: "n div 64 mod 64 = 0" "n mod 64 = 0"
    by (simp_all add: n_def)
  have recomb: "n div 262144 * 262144 + (n div 4096 mod 64) * 4096 = n"
    using sextets_recombine [of n] by (simp only: lo mult_zero_left add_0_right)
  have x: "n div 65536 = unat a" by (simp add: n_def)
  have idx: "b64_index (b64_char (n div 262144)) = Some (n div 262144)"
    "b64_index (b64_char (n div 4096 mod 64)) = Some (n div 4096 mod 64)"
    using s0 by (simp_all add: b64_index_char)
  show ?thesis
    by (simp only: b64decode.simps idx recomb x Let_def if_True simp_thms
          prod.case option.case byte_of_unat)
qed

lemma b64_block2:
  fixes a b :: byte
  defines "n \<equiv> unat a * 65536 + unat b * 256"
  shows "b64decode [b64_char (n div 262144), b64_char (n div 4096 mod 64),
                    b64_char (n div 64 mod 64), CHR ''='']
         = Some [a, b]"
proof -
  have n: "n = unat a * 65536 + unat b * 256 + 0" by (simp add: n_def)
  have s0: "n div 262144 < 64"
    unfolding n by (rule group_top_sextet) (rule byte_bound, rule byte_bound, simp)
  have lo: "n mod 64 = 0"
    by (simp add: n_def)
  have recomb: "n div 262144 * 262144 + (n div 4096 mod 64) * 4096 + (n div 64 mod 64) * 64 = n"
    using sextets_recombine [of n] by (simp only: lo add_0_right)
  have x: "n div 65536 = unat a"
    unfolding n by (rule group_hi) (rule byte_bound, rule byte_bound, simp)
  have y: "n div 256 mod 256 = unat b"
    unfolding n by (rule group_mid) (rule byte_bound, rule byte_bound, simp)
  have np: "b64_char (n div 64 mod 64) \<noteq> CHR ''=''"
    by (rule b64_char_not_pad) simp
  have idx: "b64_index (b64_char (n div 262144)) = Some (n div 262144)"
    "b64_index (b64_char (n div 4096 mod 64)) = Some (n div 4096 mod 64)"
    "b64_index (b64_char (n div 64 mod 64)) = Some (n div 64 mod 64)"
    using s0 by (simp_all add: b64_index_char)
  show ?thesis
    by (simp only: b64decode.simps np idx recomb x y Let_def if_True if_False simp_thms
          prod.case option.case byte_of_unat)
qed

lemma b64decode_b64encode: "b64decode (b64encode bs) = Some bs"
proof (induction bs rule: b64encode.induct)
  case 1
  show ?case by simp
next
  case (2 a)
  show ?case by (simp only: b64encode.simps Let_def b64_block1)
next
  case (3 a b)
  show ?case by (simp only: b64encode.simps Let_def b64_block2)
next
  case (4 a b c rest)
  show ?case
    by (simp only: b64encode.simps Let_def append_Cons append_Nil b64_block3 "4.IH" option.map)
qed

lemma b64encode_length: "length (b64encode bs) = 4 * ((length bs + 2) div 3)"
proof (induction bs rule: b64encode.induct)
  case (4 a b c rest)
  have "(length (a # b # c # rest) + 2) div 3 = Suc ((length rest + 2) div 3)"
    by simp
  with 4 show ?case by (simp add: Let_def)
qed (simp_all add: Let_def)

lemma b64encode_charset: "set (b64encode bs) \<subseteq> set b64_alphabet \<union> {CHR ''=''}"
proof (induction bs rule: b64encode.induct)
  case 1
  show ?case by simp
next
  case (2 a)
  have "unat a * 65536 div 262144 < 64" using byte_bound [of a] by simp
  then show ?case by (simp add: Let_def b64_char_in_alphabet)
next
  case (3 a b)
  have "(unat a * 65536 + unat b * 256) div 262144 < 64"
    using byte_bound [of a] byte_bound [of b] by simp
  then show ?case by (simp add: Let_def b64_char_in_alphabet)
next
  case (4 a b c rest)
  have "(unat a * 65536 + unat b * 256 + unat c) div 262144 < 64"
    by (rule group_top_sextet) (rule byte_bound)+
  with 4 show ?case by (auto simp add: Let_def b64_char_in_alphabet)
qed

section \<open>Facts about the file system and the stand-in package\<close>

lemma read_file_disk: "snd (read_file fs p) = fs"
  by (simp add: read_file_def split: option.splits)

lemma load_private_key_disk: "snd (load_private_key lib fs p) = fs"
  using read_file_disk [of fs p]
  by (cases "read_file fs p") (auto simp add: load_private_key_def split: sum.splits)

lemma read_file_present:
  "files fs p = Some content \<Longrightarrow> readable fs p \<Longrightarrow> read_file fs p = (Inr content, fs)"
  by (simp add: read_file_def)

lemma read_file_absent: "files fs p = None \<Longrightarrow> read_file fs p = (Inl OSError, fs)"
  by (simp add: read_file_def)

lemma read_file_unreadable: "\<not> readable fs p \<Longrightarrow> read_file fs p = (Inl OSError, fs)"
  by (simp add: read_file_def split: option.splits)

lemma demo_disk_files:
  "files demo_disk ''app.dmg'' = Some hello"
  "files demo_disk ''empty.dmg'' = Some []"
  "files demo_disk ''key.pem'' = Some (1 # demo_key)"
  "files demo_disk ''ed448.pem'' = Some (2 # demo_key)"
  "files demo_disk ''broken.pem'' = Some [45, 45]"
  "files demo_disk ''missing.dmg'' = None"
  "readable demo_disk p" "writable demo_disk p"
  "files demo_disk ''rsa.pem'' = Some [3]"
  "files demo_disk ''nokey.pem'' = None"
  by (simp_all add: demo_disk_def)

lemma demo_lib_fields:
  "load_pem_private_key demo_lib = demo_load"
  "private_bytes_pem demo_lib k = 1 # k"
  "public_bytes_raw demo_lib k = k"
  "ed25519_sign demo_lib = demo_sign"
  "ed448_sign demo_lib = demo_sign"
  "ed25519_verify demo_lib pk sg msg = (sg = demo_sign pk msg)"
  by (simp_all add: demo_lib_def)

lemma sign_file_keeps_disk:
  "snd (sign_file_with_ed25519 lib fs file_path private_key_path) = fs"
proof -
  obtain r1 where k: "load_private_key lib fs private_key_path = (r1, fs)"
    using load_private_key_disk [of lib fs private_key_path]
    by (cases "load_private_key lib fs private_key_path") simp
  obtain r2 where f: "read_file fs file_path = (r2, fs)"
    using read_file_disk [of fs file_path] by (cases "read_file fs file_path") simp
  show ?thesis
    by (simp add: sign_file_with_ed25519_def k f split: sum.splits)
qed

lemma demo_load_values:
  "demo_load (1 # k) = Inr (Ed25519PrivateKey k)"
  "demo_load (2 # k) = Inr (Ed448PrivateKey k)"
  "demo_load [3] = Inr RSAPrivateKey"
  "demo_load [45, 45] = Inl ValueError"
  by (simp_all add: demo_load_def)

section \<open>Text on disk\<close>

lemma char_byte_round_trip: "char_of_byte (byte_of_char c) = c"
  by (simp add: char_of_byte_def byte_of_char_def unat_of_nat)

lemma byte_of_char_value: "unat (byte_of_char c) = of_char c"
  by (simp add: byte_of_char_def unat_of_nat)

lemma b64_text_is_ascii: "c \<in> set b64_alphabet \<union> {CHR ''=''} \<Longrightarrow> (of_char c :: nat) < 128"
  by (auto simp add: b64_alphabet_def)

lemma decode_ascii_encode_text:
  assumes "set s \<subseteq> set b64_alphabet \<union> {CHR ''=''}"
  shows "decode_ascii (encode_text s) = Inr s"
proof -
  have "list_all (\<lambda>b. unat b < 128) (encode_text s)"
    using assms b64_text_is_ascii
    by (auto simp add: encode_text_def list_all_iff byte_of_char_value)
  moreover have "map char_of_byte (encode_text s) = s"
    by (simp add: encode_text_def comp_def char_byte_round_trip)
  ultimately show ?thesis by (simp add: decode_ascii_def)
qed

lemma no_line_break_in_alphabet:
  "CHR 0x0A \<notin> set b64_alphabet \<union> {CHR ''=''}" "CHR 0x0D \<notin> set b64_alphabet \<union> {CHR ''=''}"
  by (simp_all add: b64_alphabet_def)

section \<open>Outcomes of the key generator\<close>

lemma generate_both_written:
  assumes "writable fs private_key_file" and "writable fs public_key_file"
  shows "fst (snd (generate_sparkle_keys lib (Inr k) fs))
       = fs\<lparr>files := (files fs)(private_key_file \<mapsto> private_bytes_pem lib k,
              public_key_file \<mapsto> encode_text (b64encode (public_bytes_raw lib k)))\<rparr>"
  using assms
  by (simp add: generate_sparkle_keys_def write_file_def Let_def split: sum.splits)

lemma generate_success:
  assumes "writable fs private_key_file" and "writable fs public_key_file"
    and "decode_ascii (private_bytes_pem lib k) = Inr private_text"
  shows "generate_sparkle_keys lib (Inr k) fs
       = (Inr (b64encode (public_bytes_raw lib k), private_text),
          fs\<lparr>files := (files fs)(private_key_file \<mapsto> private_bytes_pem lib k,
              public_key_file \<mapsto> encode_text (b64encode (public_bytes_raw lib k)))\<rparr>,
          GenerationBanner # success_report (b64encode (public_bytes_raw lib k)))"
  using assms
  by (simp add: generate_sparkle_keys_def write_file_def Let_def)

lemma key_files_differ: "private_key_file \<noteq> public_key_file"
  by (simp add: private_key_file_def public_key_file_def)

lemma generate_main_error:
  "fst (generate_sparkle_keys lib generated fs) = Inl e
   \<Longrightarrow> exit_status (generate_sparkle_keys_main lib generated fs) = 1
     \<and> stdout (generate_sparkle_keys_main lib generated fs) \<noteq> []"
  by (cases "generate_sparkle_keys lib generated fs")
     (simp add: generate_sparkle_keys_main_def)

section \<open>Outcomes of the signer\<close>

lemma sign_file_key_unreadable:
  "files fs private_key_path = None \<or> \<not> readable fs private_key_path
   \<Longrightarrow> sign_file_with_ed25519 lib fs file_path private_key_path = (Inl OSError, fs)"
  by (auto simp add: sign_file_with_ed25519_def load_private_key_def read_file_absent
        read_file_unreadable)

lemma sign_file_key_rejected:
  "files fs private_key_path = Some key_bytes \<Longrightarrow> readable fs private_key_path
   \<Longrightarrow> load_pem_private_key lib key_bytes = Inl e
   \<Longrightarrow> sign_file_with_ed25519 lib fs file_path private_key_path = (Inl e, fs)"
  by (simp add: sign_file_with_ed25519_def load_private_key_def read_file_present)

lemma sign_file_artifact_unreadable:
  "files fs private_key_path = Some key_bytes \<Longrightarrow> readable fs private_key_path
   \<Longrightarrow> load_pem_private_key lib key_bytes = Inr pk
   \<Longrightarrow> files fs file_path = None \<or> \<not> readable fs file_path
   \<Longrightarrow> sign_file_with_ed25519 lib fs file_path private_key_path = (Inl OSError, fs)"
  by (auto simp add: sign_file_with_ed25519_def load_private_key_def read_file_present
        read_file_absent read_file_unreadable)

lemma key_sign_refuses: "\<not> takes_data_alone pk \<Longrightarrow> key_sign lib pk file_data \<noteq> Inr s"
  by (cases pk) (simp_all add: takes_data_alone_def)

lemma sign_file_other_key_type:
  assumes "files fs private_key_path = Some key_bytes" and "readable fs private_key_path"
    and "load_pem_private_key lib key_bytes = Inr pk" and "\<not> takes_data_alone pk"
  shows "isl (fst (sign_file_with_ed25519 lib fs file_path private_key_path))"
proof -
  obtain r where f: "read_file fs file_path = (r, fs)"
    using read_file_disk [of fs file_path] by (cases "read_file fs file_path") simp
  show ?thesis
    using assms(1-3) key_sign_refuses [OF assms(4), of lib]
    by (auto simp add: sign_file_with_ed25519_def load_private_key_def read_file_present f
          split: sum.splits)
qed

lemma sign_file_missing_artifact:
  assumes "files fs file_path = None"
  shows "fst (sign_file_with_ed25519 lib fs file_path private_key_path)
       = Inl (case fst (load_private_key lib fs private_key_path) of
                Inl e \<Rightarrow> e | Inr pk \<Rightarrow> OSError)"
proof -
  obtain r1 where k: "load_private_key lib fs private_key_path = (r1, fs)"
    using load_private_key_disk [of lib fs private_key_path]
    by (cases "load_private_key lib fs private_key_path") simp
  show ?thesis
    by (cases r1) (simp_all add: sign_file_with_ed25519_def k read_file_absent [OF assms])
qed

lemma sign_dmg_main_error:
  "fst (sign_file_with_ed25519 lib fs dmg_file key_file) = Inl e
   \<Longrightarrow> sign_dmg_main lib fs [prog, dmg_file, key_file]
       = \<lparr>stdout = [Erreur e], exit_status = 0, disk = fs\<rparr>"
  using sign_file_keeps_disk [of lib fs dmg_file key_file]
  by (cases "sign_file_with_ed25519 lib fs dmg_file key_file") (simp add: sign_dmg_main_def)

lemma sign_dmg_main_usage:
  "length argv \<noteq> 3 \<Longrightarrow> sign_dmg_main lib fs argv = \<lparr>stdout = [Usage], exit_status = 1, disk = fs\<rparr>"
  by (auto simp add: sign_dmg_main_def split: list.splits)

lemma key_sign_refusal_is_key_format:
  "\<not> takes_data_alone pk \<Longrightarrow> fails_with_KeyFormatError (key_sign lib pk file_data)"
  by (cases pk)
     (simp_all add: takes_data_alone_def fails_with_KeyFormatError_def is_KeyFormatError_def)

lemma sign_file_refused_by_key:
  assumes "files fs private_key_path = Some key_bytes" and "readable fs private_key_path"
    and "load_pem_private_key lib key_bytes = Inr pk" and "\<not> takes_data_alone pk"
    and "files fs file_path = Some file_data" and "readable fs file_path"
  shows "fails_with_KeyFormatError (fst (sign_file_with_ed25519 lib fs file_path private_key_path))"
  using assms(1-3) key_sign_refusal_is_key_format [OF assms(4), of lib file_data]
  by (cases "key_sign lib pk file_data")
     (simp_all add: sign_file_with_ed25519_def load_private_key_def
        read_file_present [OF assms(1,2)] read_file_present [OF assms(5,6)]
        fails_with_KeyFormatError_def)

lemma sign_file_ed448:
  assumes "files fs private_key_path = Some key_bytes" and "readable fs private_key_path"
    and "load_pem_private_key lib key_bytes = Inr (Ed448PrivateKey k)"
    and "files fs file_path = Some file_data" and "readable fs file_path"
  shows "sign_file_with_ed25519 lib fs file_path private_key_path
       = (Inr (b64encode (ed448_sign lib k file_data), int (length file_data)), fs)"
  using assms
  by (simp add: sign_file_with_ed25519_def load_private_key_def read_file_present)

section \<open>The claims of the specification\<close>

text \<open>
  Claim C1. With a readable key file that loads as the Ed25519 key \<open>k\<close> and a readable
  artifact, \<open>sign_file_with_ed25519\<close> returns the base64 text of the signature the
  package computes over exactly the bytes of the artifact, nothing added and nothing
  hashed first, together with the number of bytes of the artifact. The text decodes back
  to the signature, and is 88 characters long when the signature has 64 bytes.
\<close>

theorem sign_file_result:
  assumes "files fs private_key_path = Some key_bytes" and "readable fs private_key_path"
    and "load_pem_private_key lib key_bytes = Inr (Ed25519PrivateKey k)"
    and "files fs file_path = Some file_data" and "readable fs file_path"
  shows "sign_file_with_ed25519 lib fs file_path private_key_path
           = (Inr (b64encode (ed25519_sign lib k file_data), int (length file_data)), fs)
       \<and> b64decode (b64encode (ed25519_sign lib k file_data))
           = Some (ed25519_sign lib k file_data)
       \<and> (length (ed25519_sign lib k file_data) = 64
           \<longrightarrow> length (b64encode (ed25519_sign lib k file_data)) = 88)"
proof (intro conjI)
  show "sign_file_with_ed25519 lib fs file_path private_key_path
           = (Inr (b64encode (ed25519_sign lib k file_data), int (length file_data)), fs)"
    using assms
    by (simp add: sign_file_with_ed25519_def load_private_key_def read_file_present)
  show "b64decode (b64encode (ed25519_sign lib k file_data)) = Some (ed25519_sign lib k file_data)"
    by (rule b64decode_b64encode)
  show "length (ed25519_sign lib k file_data) = 64
           \<longrightarrow> length (b64encode (ed25519_sign lib k file_data)) = 88"
    by (simp add: b64encode_length)
qed

text \<open>
  Claim C1 at the artifact \<^verbatim>\<open>b"hello"\<close> (length 5) and at an empty artifact (length 0).
\<close>

theorem sign_file_result_witness:
  "sign_file_with_ed25519 demo_lib demo_disk ''app.dmg'' ''key.pem''
     = (Inr (b64encode (demo_sign demo_key hello), 5), demo_disk)
   \<and> sign_file_with_ed25519 demo_lib demo_disk ''empty.dmg'' ''key.pem''
     = (Inr (b64encode (demo_sign demo_key []), 0), demo_disk)
   \<and> length (b64encode (demo_sign demo_key hello)) = 88"
proof -
  have l: "load_pem_private_key demo_lib (1 # demo_key) = Inr (Ed25519PrivateKey demo_key)"
    by (simp add: demo_lib_fields demo_load_def)
  have n: "length (ed25519_sign demo_lib demo_key hello) = 64"
    by (simp add: demo_lib_fields demo_sign_def demo_key_def hello_def)
  show ?thesis
    using sign_file_result [OF demo_disk_files(3) demo_disk_files(7) l demo_disk_files(1) demo_disk_files(7)]
      sign_file_result [OF demo_disk_files(3) demo_disk_files(7) l demo_disk_files(2) demo_disk_files(7)]
      n
    by (simp add: demo_lib_fields hello_def)
qed

text \<open>
  Claim C2. When both key files can be written, the public-key file holds exactly the
  base64 text of the raw public key of the generated private key and nothing after it:
  read back as text and decoded, it gives the raw public-key bytes again; it contains
  only characters of the base64 alphabet and padding, so no line break; for a 32-byte
  public key it is 44 characters long.
\<close>

theorem public_key_file_content:
  assumes "writable fs private_key_file" and "writable fs public_key_file"
  shows "files (fst (snd (generate_sparkle_keys lib (Inr k) fs))) public_key_file
           = Some (encode_text (b64encode (public_bytes_raw lib k)))
       \<and> decode_ascii (encode_text (b64encode (public_bytes_raw lib k)))
           = Inr (b64encode (public_bytes_raw lib k))
       \<and> b64decode (b64encode (public_bytes_raw lib k)) = Some (public_bytes_raw lib k)
       \<and> set (b64encode (public_bytes_raw lib k)) \<subseteq> set b64_alphabet \<union> {CHR ''=''}
       \<and> CHR 0x0A \<notin> set (b64encode (public_bytes_raw lib k))
       \<and> CHR 0x0D \<notin> set (b64encode (public_bytes_raw lib k))
       \<and> (length (public_bytes_raw lib k) = 32
            \<longrightarrow> length (b64encode (public_bytes_raw lib k)) = 44)"
proof (intro conjI)
  show "files (fst (snd (generate_sparkle_keys lib (Inr k) fs))) public_key_file
           = Some (encode_text (b64encode (public_bytes_raw lib k)))"
    by (simp add: generate_both_written [OF assms])
  show "decode_ascii (encode_text (b64encode (public_bytes_raw lib k)))
           = Inr (b64encode (public_bytes_raw lib k))"
    by (rule decode_ascii_encode_text) (rule b64encode_charset)
  show "b64decode (b64encode (public_bytes_raw lib k)) = Some (public_bytes_raw lib k)"
    by (rule b64decode_b64encode)
  show "set (b64encode (public_bytes_raw lib k)) \<subseteq> set b64_alphabet \<union> {CHR ''=''}"
    by (rule b64encode_charset)
  show "CHR 0x0A \<notin> set (b64encode (public_bytes_raw lib k))"
    using b64encode_charset [of "public_bytes_raw lib k"] no_line_break_in_alphabet(1) by blast
  show "CHR 0x0D \<notin> set (b64encode (public_bytes_raw lib k))"
    using b64encode_charset [of "public_bytes_raw lib k"] no_line_break_in_alphabet(2) by blast
  show "length (public_bytes_raw lib k) = 32
            \<longrightarrow> length (b64encode (public_bytes_raw lib k)) = 44"
    by (simp add: b64encode_length)
qed

text \<open>Claim C2 for a 32-byte key on the demonstration disk.\<close>

theorem public_key_file_content_witness:
  "files (fst (snd (generate_sparkle_keys demo_lib (Inr demo_key32) demo_disk))) public_key_file
     = Some (encode_text (b64encode demo_key32))
   \<and> decode_ascii (encode_text (b64encode demo_key32)) = Inr (b64encode demo_key32)
   \<and> b64decode (b64encode demo_key32) = Some demo_key32
   \<and> length demo_key32 = 32 \<and> length (b64encode demo_key32) = 44"
proof -
  have n: "length (public_bytes_raw demo_lib demo_key32) = 32"
    by (simp add: demo_lib_fields demo_key32_def)
  show ?thesis
    using public_key_file_content [OF demo_disk_files(8) demo_disk_files(8), of demo_lib demo_key32] n
    by (simp add: demo_lib_fields)
qed

text \<open>
  Claim C3. After a successful generation, the signer loading the private-key file gets
  the generated key back, and the signature it then produces for any readable artifact is
  accepted by the update client under the published public key. The two facts about the
  package that this rests on are hypotheses: its loader reads back what its serialiser
  wrote for this key, and its verifier accepts the signature its signer made for this
  key and artifact.
\<close>

theorem generated_key_round_trip:
  assumes w: "writable fs private_key_file" "writable fs public_key_file"
    and r: "readable fs private_key_file" "readable fs public_key_file"
    and lib_load: "load_pem_private_key lib (private_bytes_pem lib k) = Inr (Ed25519PrivateKey k)"
    and lib_verify:
      "ed25519_verify lib (public_bytes_raw lib k) (ed25519_sign lib k file_data) file_data"
    and fs': "fs' = fst (snd (generate_sparkle_keys lib (Inr k) fs))"
    and a: "files fs' file_path = Some file_data" "readable fs' file_path"
  shows "load_private_key lib fs' private_key_file = (Inr (Ed25519PrivateKey k), fs')
       \<and> sign_file_with_ed25519 lib fs' file_path private_key_file
           = (Inr (b64encode (ed25519_sign lib k file_data), int (length file_data)), fs')
       \<and> consumer_accepts lib fs' (b64encode (ed25519_sign lib k file_data)) file_data"
proof -
  have disk: "fs' = fs\<lparr>files := (files fs)(private_key_file \<mapsto> private_bytes_pem lib k,
              public_key_file \<mapsto> encode_text (b64encode (public_bytes_raw lib k)))\<rparr>"
    unfolding fs' by (rule generate_both_written [OF w])
  have priv: "files fs' private_key_file = Some (private_bytes_pem lib k)"
    using key_files_differ by (simp add: disk)
  have pub: "files fs' public_key_file = Some (encode_text (b64encode (public_bytes_raw lib k)))"
    by (simp add: disk)
  have rd: "readable fs' private_key_file" "readable fs' public_key_file"
    using r by (simp_all add: disk)
  have 1: "load_private_key lib fs' private_key_file = (Inr (Ed25519PrivateKey k), fs')"
    by (simp add: load_private_key_def read_file_present [OF priv rd(1)] lib_load)
  have 2: "sign_file_with_ed25519 lib fs' file_path private_key_file
           = (Inr (b64encode (ed25519_sign lib k file_data), int (length file_data)), fs')"
    by (simp add: sign_file_with_ed25519_def 1 read_file_present [OF a])
  have 3: "consumer_accepts lib fs' (b64encode (ed25519_sign lib k file_data)) file_data"
    by (simp add: consumer_accepts_def read_file_present [OF pub rd(2)]
          decode_ascii_encode_text [OF b64encode_charset] b64decode_b64encode lib_verify)
  from 1 2 3 show ?thesis by simp
qed

text \<open>Claim C3 for the key \<open>demo_key\<close> and the artifact \<^verbatim>\<open>app.dmg\<close>.\<close>

theorem generated_key_round_trip_witness:
  "load_private_key demo_lib (fst (snd (generate_sparkle_keys demo_lib (Inr demo_key) demo_disk)))
       private_key_file
     = (Inr (Ed25519PrivateKey demo_key),
        fst (snd (generate_sparkle_keys demo_lib (Inr demo_key) demo_disk)))
   \<and> fst (sign_file_with_ed25519 demo_lib
         (fst (snd (generate_sparkle_keys demo_lib (Inr demo_key) demo_disk)))
         ''app.dmg'' private_key_file)
     = Inr (b64encode (demo_sign demo_key hello), 5)
   \<and> consumer_accepts demo_lib (fst (snd (generate_sparkle_keys demo_lib (Inr demo_key) demo_disk)))
        (b64encode (demo_sign demo_key hello)) hello"
proof -
  define fs' where "fs' = fst (snd (generate_sparkle_keys demo_lib (Inr demo_key) demo_disk))"
  have disk: "fs' = demo_disk\<lparr>files := (files demo_disk)(private_key_file \<mapsto> private_bytes_pem demo_lib demo_key,
              public_key_file \<mapsto> encode_text (b64encode (public_bytes_raw demo_lib demo_key)))\<rparr>"
    unfolding fs'_def by (rule generate_both_written) (rule demo_disk_files)+
  have a: "files fs' ''app.dmg'' = Some hello" "readable fs' ''app.dmg''"
    by (simp_all add: disk demo_disk_files private_key_file_def public_key_file_def)
  have l: "load_pem_private_key demo_lib (private_bytes_pem demo_lib demo_key)
             = Inr (Ed25519PrivateKey demo_key)"
    by (simp add: demo_lib_fields demo_load_def)
  have v: "ed25519_verify demo_lib (public_bytes_raw demo_lib demo_key)
             (ed25519_sign demo_lib demo_key hello) hello"
    by (simp add: demo_lib_fields)
  show ?thesis
    using generated_key_round_trip [OF demo_disk_files(8) demo_disk_files(8) demo_disk_files(7)
        demo_disk_files(7) l v fs'_def a]
    by (simp add: fs'_def [symmetric] demo_lib_fields hello_def)
qed

text \<open>
  Claim C4. Every error of either command line should end the run with a diagnostic and a
  nonzero exit status. The generator does so (\<open>generate_main_error\<close>); the handler of the
  signer prints the diagnostic and then falls off the end of the script: a run on a
  missing artifact prints one diagnostic line and exits with status 0.
\<close>

theorem sign_dmg_error_exits_zero:
  "sign_dmg_main demo_lib demo_disk [''sign_dmg.py'', ''missing.dmg'', ''key.pem'']
     = \<lparr>stdout = [Erreur OSError], exit_status = 0, disk = demo_disk\<rparr>"
  by (simp add: sign_dmg_main_def sign_file_with_ed25519_def load_private_key_def
        read_file_present read_file_absent demo_disk_files demo_lib_fields demo_load_values)

text \<open>
  Claim C5, as stated: the generator returns the private key record first and the public
  key record second. On the demonstration disk it does not.
\<close>

theorem generate_returns_private_first_counterexample:
  "fst (generate_sparkle_keys demo_lib (Inr demo_key) demo_disk)
     \<noteq> Inr (map char_of_byte (private_bytes_pem demo_lib demo_key),
            b64encode (public_bytes_raw demo_lib demo_key))"
proof -
  have d: "decode_ascii (private_bytes_pem demo_lib demo_key)
             = Inr (map char_of_byte (1 # demo_key))"
    by (simp add: decode_ascii_def demo_lib_fields demo_key_def)
  have "b64encode (public_bytes_raw demo_lib demo_key) = ''BwgJ''"
    by (simp add: demo_lib_fields demo_key_def b64_char_def b64_alphabet_def)
  moreover have "map char_of_byte [1, 7, 8, 9] \<noteq> ''BwgJ''"
    by code_simp
  then have "map char_of_byte (private_bytes_pem demo_lib demo_key) \<noteq> ''BwgJ''"
    by (simp add: demo_lib_fields demo_key_def)
  ultimately show ?thesis
    using generate_success [OF demo_disk_files(8) demo_disk_files(8) d]
    by simp
qed

text \<open>
  Claim C5, amended: when both files can be written and the PEM bytes are ASCII, the
  generator returns the pair (base64 public key, PEM private key text), the public key
  first.
\<close>

theorem generate_returns_public_then_private:
  assumes "writable fs private_key_file" and "writable fs public_key_file"
    and "decode_ascii (private_bytes_pem lib k) = Inr private_text"
  shows "fst (generate_sparkle_keys lib (Inr k) fs)
       = Inr (b64encode (public_bytes_raw lib k), private_text)"
  by (simp add: generate_success [OF assms])

text \<open>Claim C5, amended, on the demonstration disk.\<close>

theorem generate_returns_public_then_private_witness:
  "fst (generate_sparkle_keys demo_lib (Inr demo_key) demo_disk)
     = Inr (''BwgJ'', map char_of_byte [1, 7, 8, 9])"
proof -
  have d: "decode_ascii (private_bytes_pem demo_lib demo_key)
             = Inr (map char_of_byte [1, 7, 8, 9])"
    by (simp add: decode_ascii_def demo_lib_fields demo_key_def)
  have b: "b64encode (public_bytes_raw demo_lib demo_key) = ''BwgJ''"
    by (simp add: demo_lib_fields demo_key_def b64_char_def b64_alphabet_def)
  show ?thesis
    using generate_returns_public_then_private [OF demo_disk_files(8) demo_disk_files(8) d]
    by (simp add: b)
qed

text \<open>
  Claim C6, as stated: a key file holding any private key other than an Ed25519 one makes
  signing fail. The signer never looks at the type of the key it loaded: with an Ed448
  key, whose \<^verbatim>\<open>sign\<close> method also takes the data alone, it returns a signature.
\<close>

theorem sign_with_ed448_key_counterexample:
  "files demo_disk ''ed448.pem'' = Some (2 # demo_key)
   \<and> load_pem_private_key demo_lib (2 # demo_key) = Inr (Ed448PrivateKey demo_key)
   \<and> fst (sign_file_with_ed25519 demo_lib demo_disk ''app.dmg'' ''ed448.pem'')
       = Inr (b64encode (ed448_sign demo_lib demo_key hello), 5)"
  by (simp add: sign_file_with_ed25519_def load_private_key_def read_file_present
        demo_disk_files demo_lib_fields demo_load_values hello_def)

text \<open>
  Claim C6, amended: signing fails, and returns no signature, with an \<^verbatim>\<open>IOError\<close>
  (\<^verbatim>\<open>OSError\<close>) when the key file cannot be read, with the loader's exception, a
  \<^verbatim>\<open>KeyFormatError\<close>, when the key container does not parse, with an \<^verbatim>\<open>IOError\<close> when
  the key loads and the artifact cannot be read, and with a \<^verbatim>\<open>KeyFormatError\<close> when
  the key is of a type whose \<^verbatim>\<open>sign\<close> method cannot be called with the data alone
  (RSA, DSA, elliptic-curve and the key-exchange types). The signer makes no check of
  the key type: with a key file that parses as an Ed448 key and a readable artifact it
  returns the base64 text of the Ed448 signature and the length of the artifact.
\<close>

theorem sign_file_failures:
  "(CHR 0x00 \<notin> set private_key_path
      \<and> (files fs private_key_path = None \<or> \<not> readable fs private_key_path)
      \<longrightarrow> fst (sign_file_with_ed25519 lib fs file_path private_key_path) = Inl OSError)
   \<and> (files fs private_key_path = Some key_bytes \<and> readable fs private_key_path
        \<and> load_pem_private_key lib key_bytes = Inl e
      \<longrightarrow> fst (sign_file_with_ed25519 lib fs file_path private_key_path) = Inl e
        \<and> (is_KeyFormatError e
            \<longrightarrow> fails_with_KeyFormatError
                  (fst (sign_file_with_ed25519 lib fs file_path private_key_path))))
   \<and> (files fs private_key_path = Some key_bytes \<and> readable fs private_key_path
        \<and> load_pem_private_key lib key_bytes = Inr pk
        \<and> CHR 0x00 \<notin> set file_path
        \<and> (files fs file_path = None \<or> \<not> readable fs file_path)
      \<longrightarrow> fst (sign_file_with_ed25519 lib fs file_path private_key_path) = Inl OSError)
   \<and> (files fs private_key_path = Some key_bytes \<and> readable fs private_key_path
        \<and> load_pem_private_key lib key_bytes = Inr pk \<and> \<not> takes_data_alone pk
      \<longrightarrow> isl (fst (sign_file_with_ed25519 lib fs file_path private_key_path))
        \<and> (files fs file_path = Some file_data \<and> readable fs file_path
            \<longrightarrow> fails_with_KeyFormatError
                  (fst (sign_file_with_ed25519 lib fs file_path private_key_path))))
   \<and> (files fs private_key_path = Some key_bytes \<and> readable fs private_key_path
        \<and> load_pem_private_key lib key_bytes = Inr (Ed448PrivateKey k)
        \<and> files fs file_path = Some file_data \<and> readable fs file_path
      \<longrightarrow> sign_file_with_ed25519 lib fs file_path private_key_path
          = (Inr (b64encode (ed448_sign lib k file_data), int (length file_data)), fs))"
proof (intro conjI impI)
  assume "CHR 0x00 \<notin> set private_key_path
      \<and> (files fs private_key_path = None \<or> \<not> readable fs private_key_path)"
  then show "fst (sign_file_with_ed25519 lib fs file_path private_key_path) = Inl OSError"
    by (simp add: sign_file_key_unreadable)
next
  assume a: "files fs private_key_path = Some key_bytes \<and> readable fs private_key_path
        \<and> load_pem_private_key lib key_bytes = Inl e"
  then show r: "fst (sign_file_with_ed25519 lib fs file_path private_key_path) = Inl e"
    by (simp add: sign_file_key_rejected)
  assume "is_KeyFormatError e"
  then show "fails_with_KeyFormatError
               (fst (sign_file_with_ed25519 lib fs file_path private_key_path))"
    by (simp add: r fails_with_KeyFormatError_def)
next
  assume "files fs private_key_path = Some key_bytes \<and> readable fs private_key_path
        \<and> load_pem_private_key lib key_bytes = Inr pk
        \<and> CHR 0x00 \<notin> set file_path
        \<and> (files fs file_path = None \<or> \<not> readable fs file_path)"
  then show "fst (sign_file_with_ed25519 lib fs file_path private_key_path) = Inl OSError"
    using sign_file_artifact_unreadable [of fs private_key_path key_bytes lib pk file_path]
    by simp
next
  assume a: "files fs private_key_path = Some key_bytes \<and> readable fs private_key_path
        \<and> load_pem_private_key lib key_bytes = Inr pk \<and> \<not> takes_data_alone pk"
  then show "isl (fst (sign_file_with_ed25519 lib fs file_path private_key_path))"
    using sign_file_other_key_type [of fs private_key_path key_bytes lib pk file_path]
    by simp
  assume "files fs file_path = Some file_data \<and> readable fs file_path"
  with a show "fails_with_KeyFormatError
                 (fst (sign_file_with_ed25519 lib fs file_path private_key_path))"
    using sign_file_refused_by_key
      [of fs private_key_path key_bytes lib pk file_path file_data]
    by simp
next
  assume "files fs private_key_path = Some key_bytes \<and> readable fs private_key_path
        \<and> load_pem_private_key lib key_bytes = Inr (Ed448PrivateKey k)
        \<and> files fs file_path = Some file_data \<and> readable fs file_path"
  then show "sign_file_with_ed25519 lib fs file_path private_key_path
          = (Inr (b64encode (ed448_sign lib k file_data), int (length file_data)), fs)"
    using sign_file_ed448 [of fs private_key_path key_bytes lib k file_path file_data]
    by simp
qed

text \<open>
  Claim C6, amended, with a missing key file, a key file that does not parse, a missing
  artifact, an RSA key and an Ed448 key.
\<close>

theorem sign_file_failures_witness:
  "fst (sign_file_with_ed25519 demo_lib demo_disk ''app.dmg'' ''nokey.pem'') = Inl OSError
   \<and> fst (sign_file_with_ed25519 demo_lib demo_disk ''app.dmg'' ''broken.pem'') = Inl ValueError
   \<and> fails_with_KeyFormatError
        (fst (sign_file_with_ed25519 demo_lib demo_disk ''app.dmg'' ''broken.pem''))
   \<and> fst (sign_file_with_ed25519 demo_lib demo_disk ''missing.dmg'' ''key.pem'') = Inl OSError
   \<and> fails_with_KeyFormatError
        (fst (sign_file_with_ed25519 demo_lib demo_disk ''app.dmg'' ''rsa.pem''))
   \<and> sign_file_with_ed25519 demo_lib demo_disk ''app.dmg'' ''ed448.pem''
       = (Inr (b64encode (demo_sign demo_key hello), 5), demo_disk)"
  using
    sign_file_failures [of "''nokey.pem''" demo_disk demo_lib "''app.dmg''" "[]" ValueError
      RSAPrivateKey hello demo_key]
    sign_file_failures [of "''broken.pem''" demo_disk demo_lib "''app.dmg''" "[45, 45]" ValueError
      RSAPrivateKey hello demo_key]
    sign_file_failures [of "''key.pem''" demo_disk demo_lib "''missing.dmg''" "1 # demo_key"
      ValueError "Ed25519PrivateKey demo_key" hello demo_key]
    sign_file_failures [of "''rsa.pem''" demo_disk demo_lib "''app.dmg''" "[3]" ValueError
      RSAPrivateKey hello demo_key]
    sign_file_failures [of "''ed448.pem''" demo_disk demo_lib "''app.dmg''" "2 # demo_key"
      ValueError RSAPrivateKey hello demo_key]
  by (simp add: demo_disk_files demo_lib_fields demo_load_values takes_data_alone_def
        is_KeyFormatError_def fails_with_KeyFormatError_def hello_def)

text \<open>
  Claim C7, as stated: with a nonexistent artifact path the signer prints an
  \<^verbatim>\<open>IOError\<close> diagnostic. The key file is loaded first, so with a key file that does
  not parse the diagnostic is that of the key.
\<close>

theorem missing_artifact_broken_key_counterexample:
  "files demo_disk ''missing.dmg'' = None
   \<and> stdout (sign_dmg_main demo_lib demo_disk [''sign_dmg.py'', ''missing.dmg'', ''broken.pem''])
       = [Erreur ValueError]"
  by (simp add: sign_dmg_main_def sign_file_with_ed25519_def load_private_key_def
        read_file_present demo_disk_files demo_lib_fields demo_load_values)

text \<open>
  Claim C7, amended: with an argument count other than two the signer prints the usage
  line and exits with status 1. With a nonexistent artifact path it prints exactly one
  diagnostic and no signature line; the diagnostic is the exception of loading the key
  file when there is one, and the \<^verbatim>\<open>OSError\<close> of the artifact otherwise.
\<close>

theorem sign_dmg_cli_errors:
  "(length argv \<noteq> 3
      \<longrightarrow> stdout (sign_dmg_main lib fs argv) = [Usage]
        \<and> exit_status (sign_dmg_main lib fs argv) = 1)
   \<and> (files fs dmg_file = None
      \<longrightarrow> stdout (sign_dmg_main lib fs [prog, dmg_file, key_file])
            = [Erreur (case fst (load_private_key lib fs key_file) of
                         Inl e \<Rightarrow> e | Inr pk \<Rightarrow> OSError)]
        \<and> list_all (\<lambda>l. \<not> is_signature_line l)
            (stdout (sign_dmg_main lib fs [prog, dmg_file, key_file])))"
proof (intro conjI impI)
  assume "length argv \<noteq> 3"
  then show "stdout (sign_dmg_main lib fs argv) = [Usage]"
    and "exit_status (sign_dmg_main lib fs argv) = 1"
    by (simp_all add: sign_dmg_main_usage)
next
  assume m: "files fs dmg_file = None"
  show out: "stdout (sign_dmg_main lib fs [prog, dmg_file, key_file])
            = [Erreur (case fst (load_private_key lib fs key_file) of
                         Inl e \<Rightarrow> e | Inr pk \<Rightarrow> OSError)]"
    by (simp add: sign_dmg_main_error [OF sign_file_missing_artifact [OF m]])
  show "list_all (\<lambda>l. \<not> is_signature_line l)
            (stdout (sign_dmg_main lib fs [prog, dmg_file, key_file]))"
    by (simp add: out is_signature_line_def)
qed

text \<open>Claim C7, amended, with one argument, and with a missing artifact and a good key.\<close>

theorem sign_dmg_cli_errors_witness:
  "stdout (sign_dmg_main demo_lib demo_disk [''sign_dmg.py'', ''app.dmg'']) = [Usage]
   \<and> exit_status (sign_dmg_main demo_lib demo_disk [''sign_dmg.py'', ''app.dmg'']) = 1
   \<and> stdout (sign_dmg_main demo_lib demo_disk [''sign_dmg.py'', ''missing.dmg'', ''key.pem''])
       = [Erreur OSError]"
proof -
  have k: "load_private_key demo_lib demo_disk ''key.pem''
             = (Inr (Ed25519PrivateKey demo_key), demo_disk)"
    by (simp add: load_private_key_def read_file_present demo_disk_files demo_lib_fields
          demo_load_values)
  show ?thesis
    using sign_dmg_cli_errors [of "[''sign_dmg.py'', ''app.dmg'']" demo_lib demo_disk
        "''missing.dmg''" "''sign_dmg.py''" "''key.pem''"]
    by (simp add: demo_disk_files k)
qed

text \<open>
  Claim C9. Signing only reads: whatever the outcome (a signature or an exception), the
  disk after \<open>sign_file_with_ed25519\<close> is the disk before it, and so is the disk after
  a whole run of the command line: neither the artifact nor the key file changes and no
  file is created.
\<close>

theorem sign_leaves_disk_unchanged:
  "snd (sign_file_with_ed25519 lib fs file_path private_key_path) = fs
   \<and> disk (sign_dmg_main lib fs argv) = fs"
proof
  show "snd (sign_file_with_ed25519 lib fs file_path private_key_path) = fs"
    by (rule sign_file_keeps_disk)
  show "disk (sign_dmg_main lib fs argv) = fs"
  proof (cases "length argv = 3")
    case False
    then show ?thesis by (simp add: sign_dmg_main_usage)
  next
    case True
    then obtain prog dmg_file key_file where a: "argv = [prog, dmg_file, key_file]"
      by (auto simp add: length_Suc_conv numeral_3_eq_3)
    obtain r where s: "sign_file_with_ed25519 lib fs dmg_file key_file = (r, fs)"
      using sign_file_keeps_disk [of lib fs dmg_file key_file]
      by (cases "sign_file_with_ed25519 lib fs dmg_file key_file") simp
    show ?thesis
      by (cases r) (auto simp add: a sign_dmg_main_def s)
  qed
qed

text \<open>
  Claim C10. The generator writes the private-key file first. When that write succeeds
  and the public-key file cannot be written, the run ends with an \<^verbatim>\<open>OSError\<close> and
  status 1, and the disk already holds the new private key under the private-key path,
  whatever was there before; the public-key path is untouched.
\<close>

theorem public_write_failure_keeps_private_key:
  assumes "writable fs private_key_file" and "\<not> writable fs public_key_file"
  shows "generate_sparkle_keys lib (Inr k) fs
           = (Inl OSError,
              fs\<lparr>files := (files fs)(private_key_file \<mapsto> private_bytes_pem lib k)\<rparr>,
              [GenerationBanner])
       \<and> generate_sparkle_keys_main lib (Inr k) fs
           = \<lparr>stdout = [GenerationBanner, ErreurGeneration OSError], exit_status = 1,
              disk = fs\<lparr>files := (files fs)(private_key_file \<mapsto> private_bytes_pem lib k)\<rparr>\<rparr>"
proof -
  have g: "generate_sparkle_keys lib (Inr k) fs
           = (Inl OSError,
              fs\<lparr>files := (files fs)(private_key_file \<mapsto> private_bytes_pem lib k)\<rparr>,
              [GenerationBanner])"
    using assms by (simp add: generate_sparkle_keys_def write_file_def Let_def)
  show ?thesis
    by (simp add: g generate_sparkle_keys_main_def)
qed

text \<open>
  Claim C10 on a disk with an older private key and a public-key path that cannot be
  written.
\<close>

theorem public_write_failure_keeps_private_key_witness:
  "files read_only_public private_key_file = Some [0]
   \<and> files (fst (snd (generate_sparkle_keys demo_lib (Inr demo_key) read_only_public)))
        private_key_file = Some (1 # demo_key)
   \<and> files (fst (snd (generate_sparkle_keys demo_lib (Inr demo_key) read_only_public)))
        public_key_file = None
   \<and> fst (generate_sparkle_keys demo_lib (Inr demo_key) read_only_public) = Inl OSError
   \<and> exit_status (generate_sparkle_keys_main demo_lib (Inr demo_key) read_only_public) = 1"
proof -
  have w: "writable read_only_public private_key_file" "\<not> writable read_only_public public_key_file"
    by (simp_all add: read_only_public_def private_key_file_def public_key_file_def)
  show ?thesis
    using public_write_failure_keeps_private_key [OF w, of demo_lib demo_key]
    by (simp add: demo_lib_fields read_only_public_def private_key_file_def public_key_file_def)
qed

end
